theory Spec2Isabelle
  imports Main "HOL-Library.AList"
begin

section \<open>Strings as the generator uses them\<close>

text \<open>
  A Python \<open>str\<close> is modelled as a \<open>string\<close> whose characters are the code points
  below 256 (ASCII and the Latin-1 supplement). The protocol description the generator
  reads uses ASCII names; the character classes below follow Python for the whole
  range of \<open>char\<close>.
\<close>

definition char_code :: "char \<Rightarrow> nat" where
  "char_code c = of_char c"

definition squote :: char where "squote = CHR 0x27"
definition dquote :: char where "dquote = CHR 0x22"
definition backslash :: char where "backslash = CHR 0x5C"

text \<open>The regular-expression class \<open>[A-Z]\<close>.\<close>

definition is_AZ :: "char \<Rightarrow> bool" where
  "is_AZ c = (65 \<le> char_code c \<and> char_code c \<le> 90)"

text \<open>The lowercase letters \<open>a\<close> to \<open>z\<close>.\<close>

definition is_az :: "char \<Rightarrow> bool" where
  "is_az c = (97 \<le> char_code c \<and> char_code c \<le> 122)"

definition is_digit :: "char \<Rightarrow> bool" where
  "is_digit c = (48 \<le> char_code c \<and> char_code c \<le> 57)"

text \<open>The class \<open>[a-zA-Z_]\<close>, the first character of \<open>identifier_pattern\<close>.\<close>

definition is_ident_start :: "char \<Rightarrow> bool" where
  "is_ident_start c = (is_az c \<or> is_AZ c \<or> c = CHR ''_'')"

text \<open>
  The class \<open>\w\<close> of a \<open>str\<close> pattern: the underscore and every alphanumeric
  character; above ASCII these are the Latin-1 letters, the superscript digits and the
  vulgar fractions.
\<close>

definition is_word :: "char \<Rightarrow> bool" where
  "is_word c = (is_az c \<or> is_AZ c \<or> is_digit c \<or> c = CHR ''_''
     \<or> char_code c \<in> {170, 178, 179, 181, 185, 186, 188, 189, 190}
     \<or> (192 \<le> char_code c \<and> char_code c \<noteq> 215 \<and> char_code c \<noteq> 247))"

text \<open>\<open>str.lower()\<close>, one character at a time.\<close>

definition upper_chars :: string where
  "upper_chars = ''ABCDEFGHIJKLMNOPQRSTUVWXYZ'' @
     [CHR 0xC0, CHR 0xC1, CHR 0xC2, CHR 0xC3, CHR 0xC4, CHR 0xC5, CHR 0xC6, CHR 0xC7,
      CHR 0xC8, CHR 0xC9, CHR 0xCA, CHR 0xCB, CHR 0xCC, CHR 0xCD, CHR 0xCE, CHR 0xCF,
      CHR 0xD0, CHR 0xD1, CHR 0xD2, CHR 0xD3, CHR 0xD4, CHR 0xD5, CHR 0xD6,
      CHR 0xD8, CHR 0xD9, CHR 0xDA, CHR 0xDB, CHR 0xDC, CHR 0xDD, CHR 0xDE]"

definition lower_chars :: string where
  "lower_chars = ''abcdefghijklmnopqrstuvwxyz'' @
     [CHR 0xE0, CHR 0xE1, CHR 0xE2, CHR 0xE3, CHR 0xE4, CHR 0xE5, CHR 0xE6, CHR 0xE7,
      CHR 0xE8, CHR 0xE9, CHR 0xEA, CHR 0xEB, CHR 0xEC, CHR 0xED, CHR 0xEE, CHR 0xEF,
      CHR 0xF0, CHR 0xF1, CHR 0xF2, CHR 0xF3, CHR 0xF4, CHR 0xF5, CHR 0xF6,
      CHR 0xF8, CHR 0xF9, CHR 0xFA, CHR 0xFB, CHR 0xFC, CHR 0xFD, CHR 0xFE]"

definition lower_char :: "char \<Rightarrow> char" where
  "lower_char c = (case map_of (zip upper_chars lower_chars) c of Some l \<Rightarrow> l | None \<Rightarrow> c)"

definition lower :: "string \<Rightarrow> string" where
  "lower s = map lower_char s"

text \<open>\<open>sep.join(xs)\<close>.\<close>

fun join :: "string \<Rightarrow> string list \<Rightarrow> string" where
  "join sep [] = []"
| "join sep [x] = x"
| "join sep (x # y # ys) = x @ sep @ join sep (y # ys)"

subsection \<open>\<open>to_snake_case\<close>\<close>

text \<open>
  \<open>re.sub(r"([^A-Z])([A-Z])", r"\1_\2", text)\<close>: the scan is leftmost and the matches
  do not overlap. A match takes two characters, the first outside \<open>[A-Z]\<close> and the
  second inside, puts an underscore between them and resumes after the second; where
  there is no match the scan moves on by one character.
\<close>

fun sub_boundary :: "string \<Rightarrow> string" where
  "sub_boundary (a # b # rest) =
     (if \<not> is_AZ a \<and> is_AZ b then a # CHR ''_'' # b # sub_boundary rest
      else a # sub_boundary (b # rest))"
| "sub_boundary s = s"

definition to_snake_case :: "string \<Rightarrow> string" where
  "to_snake_case text = lower (sub_boundary text)"

subsection \<open>\<open>identifier_pattern.findall\<close>\<close>

text \<open>
  \<open>re.compile(r"([a-zA-Z_]\w+)").findall(text)\<close>: at each position, left to right, a
  match needs a character of \<open>[a-zA-Z_]\<close> followed by at least one \<open>\w\<close>; the greedy
  \<open>\w+\<close> then takes the whole run and the scan resumes after it. Where no match starts
  the scan moves on by one character. \<open>scan_word\<close> carries the token being read.
\<close>

fun scan_word :: "string \<Rightarrow> string \<Rightarrow> string list"
  and scan_text :: "string \<Rightarrow> string list" where
  "scan_word tok [] = [tok]"
| "scan_word tok (c # cs) =
     (if is_word c then scan_word (tok @ [c]) cs else tok # scan_text cs)"
| "scan_text [] = []"
| "scan_text [c] = []"
| "scan_text (c # d # cs) =
     (if is_ident_start c \<and> is_word d then scan_word [c, d] cs else scan_text (d # cs))"

definition findall :: "string \<Rightarrow> string list" where
  "findall text = scan_text text"

subsection \<open>\<open>repr\<close> of strings, integers and booleans\<close>

definition hex_digit :: "nat \<Rightarrow> char" where
  "hex_digit n = ''0123456789abcdef'' ! n"

definition is_printable :: "char \<Rightarrow> bool" where
  "is_printable c = ((32 \<le> char_code c \<and> char_code c < 127) \<or> (161 \<le> char_code c \<and> char_code c \<noteq> 173))"

text \<open>
  One character of \<open>repr(s)\<close> inside the quote \<open>q\<close>: the quote and the backslash are
  escaped with a backslash, tab, newline and carriage return by their letters, every
  other non-printable character as \<open>\xNN\<close>.
\<close>

definition repr_char :: "char \<Rightarrow> char \<Rightarrow> string" where
  "repr_char q c =
     (if c = q \<or> c = backslash then [backslash, c]
      else if c = CHR 0x09 then [backslash, CHR ''t'']
      else if c = CHR 0x0A then [backslash, CHR ''n'']
      else if c = CHR 0x0D then [backslash, CHR ''r'']
      else if \<not> is_printable c
        then [backslash, CHR ''x'', hex_digit (char_code c div 16), hex_digit (char_code c mod 16)]
      else [c])"

text \<open>
  \<open>repr(s)\<close> uses single quotes unless the string has a single quote and no double
  quote.
\<close>

definition repr_quote :: "string \<Rightarrow> char" where
  "repr_quote s = (if squote \<in> set s \<and> dquote \<notin> set s then dquote else squote)"

definition repr_str :: "string \<Rightarrow> string" where
  "repr_str s = (let q = repr_quote s in q # concat (map (repr_char q) s) @ [q])"

fun digits :: "nat \<Rightarrow> string" where
  "digits n =
     (if n < 10 then [''0123456789'' ! n]
      else digits (n div 10) @ [''0123456789'' ! (n mod 10)])"

definition repr_int :: "int \<Rightarrow> string" where
  "repr_int i = (if i < 0 then CHR ''-'' # digits (nat (- i)) else digits (nat i))"

definition repr_bool :: "bool \<Rightarrow> string" where
  "repr_bool b = (if b then ''True'' else ''False'')"

subsection \<open>Quoting whole words\<close>

text \<open>
  \<open>re.sub(r"\b(LSPObject|LSPArray)\b", r'"\1"', typ)\<close>: both alternatives consist of
  word characters, so a match between two word boundaries is a maximal run of word
  characters equal to one of them. \<open>quote_run\<close> carries the run being read.
\<close>

definition quote_if :: "string list \<Rightarrow> string \<Rightarrow> string" where
  "quote_if ws run = (if run \<in> set ws then dquote # run @ [dquote] else run)"

fun quote_run :: "string list \<Rightarrow> string \<Rightarrow> string \<Rightarrow> string" where
  "quote_run ws run [] = quote_if ws run"
| "quote_run ws run (c # cs) =
     (if is_word c then quote_run ws (run @ [c]) cs
      else quote_if ws run @ c # quote_run ws [] cs)"

definition quote_words :: "string list \<Rightarrow> string \<Rightarrow> string" where
  "quote_words ws text = quote_run ws [] text"

section \<open>The metamodel\<close>

text \<open>
  The dataclasses of \<open>metaModel_schema.py\<close>, with the fields the generator reads. An
  \<open>Optional\<close> field is an \<open>option\<close>. The \<open>number\<close> of an integer literal or an
  enumeration entry is modelled as an integer.
\<close>

datatype BaseTypes =
  URI | DOCUMENTURI | INTEGER | UINTEGER | DECIMAL | REGEXP | STRING | BOOLEAN | NULL

text \<open>The \<open>.value\<close> of a member of the enum \<open>BaseTypes\<close>.\<close>

fun base_value :: "BaseTypes \<Rightarrow> string" where
  "base_value URI = ''URI''"
| "base_value DOCUMENTURI = ''DocumentUri''"
| "base_value INTEGER = ''integer''"
| "base_value UINTEGER = ''uinteger''"
| "base_value DECIMAL = ''decimal''"
| "base_value REGEXP = ''RegExp''"
| "base_value STRING = ''string''"
| "base_value BOOLEAN = ''boolean''"
| "base_value NULL = ''null''"

datatype MessageDirection = CLIENTTOSERVER | SERVERTOCLIENT | BOTH

datatype Type =
    BaseType BaseTypes
  | ReferenceType string
  | ArrayType Type
  | MapType Type Type
  | AndType "Type list"
  | OrType "Type list"
  | TupleType "Type list"
  | StructureLiteralType "Property list"
  | StringLiteralType string
  | IntegerLiteralType int
  | BooleanLiteralType bool
and Property =
    Property (p_name: string) (p_type: Type) (p_optional: "bool option")
      (p_documentation: "string option")

record Structure =
  s_name :: string
  s_extends :: "Type list option"
  s_mixins :: "Type list option"
  s_properties :: "Property list"
  s_documentation :: "string option"

datatype EntryValue = StrValue string | IntValue int

record EnumerationEntry =
  e_name :: string
  e_value :: EntryValue

datatype EnumerationTypeName = ENUM_STRING | ENUM_INTEGER | ENUM_UINTEGER

fun enum_type_value :: "EnumerationTypeName \<Rightarrow> string" where
  "enum_type_value ENUM_STRING = ''string''"
| "enum_type_value ENUM_INTEGER = ''integer''"
| "enum_type_value ENUM_UINTEGER = ''uinteger''"

record Enumeration =
  en_name :: string
  en_type :: EnumerationTypeName
  en_values :: "EnumerationEntry list"

record TypeAlias =
  ta_name :: string
  ta_type :: Type
  ta_documentation :: "string option"

text \<open>\<open>params: Optional[Union[Type, List[Type]]]\<close>.\<close>

datatype Params = NoParams | OneParam Type | ManyParams "Type list"

record Request =
  rq_method :: string
  rq_typeName :: "string option"
  rq_params :: Params
  rq_result :: Type
  rq_messageDirection :: MessageDirection
  rq_documentation :: "string option"

record Notification =
  nt_method :: string
  nt_typeName :: "string option"
  nt_params :: Params
  nt_messageDirection :: MessageDirection
  nt_documentation :: "string option"

record MetaModel =
  requests :: "Request list"
  notifications :: "Notification list"
  structures :: "Structure list"
  enumerations :: "Enumeration list"
  typeAliases :: "TypeAlias list"

section \<open>The generated code objects\<close>

record Variable =
  v_name :: string
  v_annotation :: "string option"
  v_value :: "string option"
  v_docstring :: "string option"

record Argument =
  a_name :: string
  a_annotation :: "string option"
  a_value :: "string option"

record Function =
  f_name :: string
  f_arguments :: "Argument list option"
  f_annotation :: "string option"
  f_body :: "string option"
  f_decorators :: "string list option"
  f_docstring :: "string option"

record Class =
  c_name :: string
  c_variables :: "Variable list option"
  c_methods :: "Function list option"
  c_parents :: "string list option"
  c_decorators :: "string list option"
  c_docstring :: "string option"

record FromImports =
  i_module :: string
  i_names :: "string list"

text \<open>An element of \<open>List[Union[Class, Variable]]\<close>.\<close>

datatype Definition = ClassDef Class | VariableDef Variable

fun def_name :: "Definition \<Rightarrow> string" where
  "def_name (ClassDef c) = c_name c"
| "def_name (VariableDef v) = v_name v"

text \<open>What an output property joins into source text.\<close>

datatype Code = ImportCode FromImports | DefinitionCode Definition

text \<open>The exceptions the code can raise.\<close>

datatype error =
  KeyError | AttributeError | TypeError | ValueError | IndexError | RecursionError
  | Exception string

section \<open>The type expression compiler\<close>

text \<open>\<open>basetype\<close>, on the \<open>.value\<close> of the base name.\<close>

definition builtin_type_map :: "(string \<times> string) list" where
  "builtin_type_map =
     [(''integer'', ''int''), (''decimal'', ''float''), (''string'', ''str''),
      (''boolean'', ''bool''), (''null'', ''None'')]"

definition basetype :: "string \<Rightarrow> string" where
  "basetype tp_name =
     (case map_of builtin_type_map tp_name of Some builtin_type \<Rightarrow> builtin_type
      | None \<Rightarrow> tp_name)"

text \<open>
  \<open>"\n".join(...)\<close> in \<open>structureliteral\<close> is applied to the \<open>Variable\<close> objects that
  \<open>property\<close> returns: \<open>str.join\<close> accepts the empty list and raises \<open>TypeError\<close> on
  the first item that is not a string.
\<close>

definition join_variables :: "Variable list \<Rightarrow> error + string" where
  "join_variables vs = (if vs = [] then Inr [] else Inl TypeError)"

text \<open>
  \<open>type_expr\<close> is \<open>CodeGenerator.type_\<close>, which dispatches on the \<open>kind\<close> of a
  type; a structure literal has no \<open>kind\<close> and goes to \<open>structureliteral\<close> by its
  class name. The list comprehensions stop at the
  first exception. \<open>property\<close> is \<open>CodeGenerator.property\<close>.
\<close>

fun type_expr :: "Type \<Rightarrow> error + string"
  and type_items :: "Type list \<Rightarrow> error + string list"
  and property :: "Property \<Rightarrow> error + Variable"
  and structureliteral_properties :: "Property list \<Rightarrow> error + Variable list" where
  "type_expr (BaseType n) = Inr (basetype (base_value n))"
| "type_expr (ReferenceType n) = Inr n"
| "type_expr (ArrayType element) =
     (case type_expr element of Inl err \<Rightarrow> Inl err
      | Inr code \<Rightarrow> Inr (''List['' @ code @ '']''))"
| "type_expr (MapType k v) =
     (case type_expr k of Inl err \<Rightarrow> Inl err
      | Inr key \<Rightarrow>
          (case type_expr v of Inl err \<Rightarrow> Inl err
           | Inr val \<Rightarrow> Inr (''Dict['' @ key @ '', '' @ val @ '']'')))"
| "type_expr (AndType items) =
     (case type_items items of Inl err \<Rightarrow> Inl err
      | Inr codes \<Rightarrow> Inr (''Union['' @ join '', '' codes @ '']''))"
| "type_expr (OrType items) =
     (case type_items items of Inl err \<Rightarrow> Inl err
      | Inr codes \<Rightarrow> Inr (''Union['' @ join '', '' codes @ '']''))"
| "type_expr (TupleType items) =
     (case type_items items of Inl err \<Rightarrow> Inl err
      | Inr codes \<Rightarrow> Inr (''Tuple['' @ join '', '' codes @ '']''))"
| "type_expr (StructureLiteralType props) =
     (case structureliteral_properties props of Inl err \<Rightarrow> Inl err
      | Inr vs \<Rightarrow>
          (case join_variables vs of Inl err \<Rightarrow> Inl err
           | Inr text \<Rightarrow> Inr (''Literal['' @ repr_str text @ '']'')))"
| "type_expr (StringLiteralType s) = Inr (''Literal['' @ repr_str s @ '']'')"
| "type_expr (IntegerLiteralType i) = Inr (''Literal['' @ repr_int i @ '']'')"
| "type_expr (BooleanLiteralType b) = Inr (''Literal['' @ repr_bool b @ '']'')"
| "type_items [] = Inr []"
| "type_items (c # cs) =
     (case type_expr c of Inl err \<Rightarrow> Inl err
      | Inr code \<Rightarrow>
          (case type_items cs of Inl err \<Rightarrow> Inl err | Inr codes \<Rightarrow> Inr (code # codes)))"
| "property (Property name tp optional documentation) =
     (case type_expr tp of Inl err \<Rightarrow> Inl err
      | Inr t \<Rightarrow>
          Inr \<lparr>v_name = name,
               v_annotation =
                 Some (if optional = Some True then ''NotRequired['' @ t @ '']'' else t),
               v_value = None, v_docstring = documentation\<rparr>)"
| "structureliteral_properties [] = Inr []"
| "structureliteral_properties (p # ps) =
     (case property p of Inl err \<Rightarrow> Inl err
      | Inr v \<Rightarrow>
          (case structureliteral_properties ps of Inl err \<Rightarrow> Inl err
           | Inr vs \<Rightarrow> Inr (v # vs)))"

text \<open>
  \<open>type_\<close> on the \<open>params\<close> of a message: \<open>None\<close> compiles to \<open>"None"\<close>; a list of
  types has no \<open>kind\<close>, and the generator has no method named after its class, so
  \<open>getattr\<close> raises \<open>AttributeError\<close>.
\<close>

fun type_params :: "Params \<Rightarrow> error + string" where
  "type_params NoParams = Inr ''None''"
| "type_params (OneParam tp) = type_expr tp"
| "type_params (ManyParams tps) = Inl AttributeError"

text \<open>\<open>[self.property(p) for p in properties]\<close>.\<close>

definition properties_variables :: "Property list \<Rightarrow> error + Variable list" where
  "properties_variables ps = structureliteral_properties ps"

section \<open>The definition builder\<close>

text \<open>\<open>f"{val.value!r}"\<close>.\<close>

fun repr_value :: "EntryValue \<Rightarrow> string" where
  "repr_value (StrValue s) = repr_str s"
| "repr_value (IntValue i) = repr_int i"

definition entry_variable :: "EnumerationEntry \<Rightarrow> Variable" where
  "entry_variable val =
     \<lparr>v_name = e_name val, v_annotation = None, v_value = Some (repr_value (e_value val)),
      v_docstring = None\<rparr>"

text \<open>
  \<open>enumeration\<close>: the backing type of an enumeration has kind \<open>base\<close>, so \<open>type_\<close> sends
  it to \<open>basetype\<close>.
\<close>

definition enumeration :: "Enumeration \<Rightarrow> Class" where
  "enumeration tp =
     \<lparr>c_name = en_name tp, c_variables = Some (map entry_variable (en_values tp)),
      c_methods = None,
      c_parents = Some [basetype (enum_type_value (en_type tp)), ''Enum''],
      c_decorators = None, c_docstring = None\<rparr>"

definition typealias :: "TypeAlias \<Rightarrow> error + Variable" where
  "typealias tp =
     (case type_expr (ta_type tp) of Inl err \<Rightarrow> Inl err
      | Inr typ \<Rightarrow>
          Inr \<lparr>v_name = ta_name tp, v_annotation = Some ''TypeAlias'',
               v_value = Some (quote_words [''LSPObject'', ''LSPArray''] typ),
               v_docstring = ta_documentation tp\<rparr>)"

section \<open>The code generator\<close>

text \<open>
  The state of a \<open>CodeGenerator\<close>. \<open>_server\<close> and \<open>_client\<close> are \<open>Class\<close> objects made
  once, with a name and two empty lists; only their \<open>methods\<close> lists ever change, so
  the state keeps these lists and \<open>server_class\<close> and \<open>client_class\<close> give the objects.
  The dictionaries keep insertion order: an assignment to a key that is present
  replaces its value in place, as \<open>AList.update\<close> does. A structure of the model is
  an object; it is referred to by its position in \<open>model.structures\<close>, and
  \<open>_structure_maps\<close> maps a name to the position of the object it holds.
\<close>

record CodeGenerator =
  g_model :: MetaModel
  g_types :: "Definition list"
  g_server_methods :: "Function list"
  g_server_handle_map :: "(string \<times> string) list"
  g_client_methods :: "Function list"
  g_client_handle_map :: "(string \<times> string) list"
  g_structure_maps :: "(string \<times> nat) list"
  g_is_generated :: bool

definition dispatcher_class :: "string \<Rightarrow> Function list \<Rightarrow> Class" where
  "dispatcher_class name methods =
     \<lparr>c_name = name, c_variables = Some [], c_methods = Some methods, c_parents = None,
      c_decorators = None, c_docstring = None\<rparr>"

definition server_class :: "CodeGenerator \<Rightarrow> Class" where
  "server_class g = dispatcher_class ''Server'' (g_server_methods g)"

definition client_class :: "CodeGenerator \<Rightarrow> Class" where
  "client_class g = dispatcher_class ''Client'' (g_client_methods g)"

text \<open>\<open>{i.name: i for i in model.structures}\<close>.\<close>

definition structure_maps_of :: "Structure list \<Rightarrow> (string \<times> nat) list" where
  "structure_maps_of ss = fold (\<lambda>(i, s). AList.update (s_name s) i) (enumerate 0 ss) []"

text \<open>\<open>CodeGenerator.__init__\<close>.\<close>

definition init :: "MetaModel \<Rightarrow> CodeGenerator" where
  "init m =
     \<lparr>g_model = m, g_types = [], g_server_methods = [], g_server_handle_map = [],
      g_client_methods = [], g_client_handle_map = [],
      g_structure_maps = structure_maps_of (structures m), g_is_generated = False\<rparr>"

subsection \<open>Messages\<close>

definition argument :: "string \<Rightarrow> string option \<Rightarrow> Argument" where
  "argument name ann = \<lparr>a_name = name, a_annotation = ann, a_value = None\<rparr>"

text \<open>The sender of a request or a notification; \<open>call\<close> is \<open>request\<close> or \<open>notify\<close>.\<close>

definition sender_function ::
  "string \<Rightarrow> string \<Rightarrow> string \<Rightarrow> string \<Rightarrow> string option \<Rightarrow> Function" where
  "sender_function call func_name params meth documentation =
     \<lparr>f_name = func_name,
      f_arguments = Some [argument ''self'' None, argument ''params'' (Some params)],
      f_annotation = Some ''None'',
      f_body = Some (''self.'' @ call @ ''(method='' @ repr_str meth @ '', params=params)''),
      f_decorators = None, f_docstring = documentation\<rparr>"

text \<open>A handler stub: \<open>self\<close>, \<open>context: dict\<close> and one more argument; no body.\<close>

definition handler_function :: "string \<Rightarrow> string \<Rightarrow> string \<Rightarrow> string \<Rightarrow> Function" where
  "handler_function handle_func_name arg_name arg_type ann =
     \<lparr>f_name = handle_func_name,
      f_arguments =
        Some [argument ''self'' None, argument ''context'' (Some ''dict''),
              argument arg_name (Some arg_type)],
      f_annotation = Some ann, f_body = None, f_decorators = None, f_docstring = None\<rparr>"

definition client_append :: "Function list \<Rightarrow> CodeGenerator \<Rightarrow> CodeGenerator" where
  "client_append fs g = g\<lparr>g_client_methods := g_client_methods g @ fs\<rparr>"

definition server_append :: "Function list \<Rightarrow> CodeGenerator \<Rightarrow> CodeGenerator" where
  "server_append fs g = g\<lparr>g_server_methods := g_server_methods g @ fs\<rparr>"

definition client_handle :: "string \<Rightarrow> string \<Rightarrow> CodeGenerator \<Rightarrow> CodeGenerator" where
  "client_handle meth h g = g\<lparr>g_client_handle_map := AList.update meth h (g_client_handle_map g)\<rparr>"

definition server_handle :: "string \<Rightarrow> string \<Rightarrow> CodeGenerator \<Rightarrow> CodeGenerator" where
  "server_handle meth h g = g\<lparr>g_server_handle_map := AList.update meth h (g_server_handle_map g)\<rparr>"

text \<open>
  \<open>request\<close>. The three \<open>Function\<close> objects are built before anything is stored, so an
  exception (\<open>to_snake_case\<close> on a missing \<open>typeName\<close>, or \<open>type_\<close>) leaves the state as
  it was.
\<close>

definition request :: "CodeGenerator \<Rightarrow> Request \<Rightarrow> error + CodeGenerator" where
  "request g tp =
     (case rq_typeName tp of None \<Rightarrow> Inl TypeError
      | Some typeName \<Rightarrow>
     (case type_params (rq_params tp) of Inl err \<Rightarrow> Inl err
      | Inr params \<Rightarrow>
     (case type_expr (rq_result tp) of Inl err \<Rightarrow> Inl err
      | Inr result \<Rightarrow>
          let func_name = to_snake_case typeName;
              handle_func_name = ''handle_'' @ func_name;
              request_function =
                sender_function ''request'' func_name params (rq_method tp)
                  (rq_documentation tp);
              handle_result_function =
                handler_function handle_func_name ''result'' result ''None'';
              handle_request_function =
                handler_function handle_func_name ''params'' params result;
              g1 = (if rq_messageDirection tp \<in> {CLIENTTOSERVER, BOTH}
                    then (server_handle (rq_method tp) handle_func_name
                          \<circ> server_append [handle_request_function]
                          \<circ> client_handle (rq_method tp) handle_func_name
                          \<circ> client_append [request_function, handle_result_function]) g
                    else g);
              g2 = (if rq_messageDirection tp \<in> {SERVERTOCLIENT, BOTH}
                    then (client_handle (rq_method tp) handle_func_name
                          \<circ> client_append [handle_request_function]
                          \<circ> server_handle (rq_method tp) handle_func_name
                          \<circ> server_append [request_function, handle_result_function]) g1
                    else g1)
          in Inr g2)))"

text \<open>\<open>notification\<close>.\<close>

definition notification :: "CodeGenerator \<Rightarrow> Notification \<Rightarrow> error + CodeGenerator" where
  "notification g tp =
     (case nt_typeName tp of None \<Rightarrow> Inl TypeError
      | Some typeName \<Rightarrow>
     (case type_params (nt_params tp) of Inl err \<Rightarrow> Inl err
      | Inr params \<Rightarrow>
          let func_name = to_snake_case typeName;
              handle_func_name = ''handle_'' @ func_name;
              notify_function =
                sender_function ''notify'' func_name params (nt_method tp)
                  (nt_documentation tp);
              handle_notification_function =
                handler_function handle_func_name ''params'' params ''None'';
              g1 = (if nt_messageDirection tp \<in> {CLIENTTOSERVER, BOTH}
                    then (server_handle (nt_method tp) handle_func_name
                          \<circ> server_append [handle_notification_function]
                          \<circ> client_append [notify_function]) g
                    else g);
              g2 = (if nt_messageDirection tp \<in> {SERVERTOCLIENT, BOTH}
                    then (client_handle (nt_method tp) handle_func_name
                          \<circ> client_append [handle_notification_function]
                          \<circ> server_append [notify_function]) g1
                    else g1)
          in Inr g2))"

subsection \<open>Structures\<close>

definition structure_at :: "CodeGenerator \<Rightarrow> nat \<Rightarrow> Structure" where
  "structure_at g i = structures (g_model g) ! i"

text \<open>Writing the \<open>properties\<close> list of the structure object at position \<open>i\<close>.\<close>

definition set_properties :: "CodeGenerator \<Rightarrow> nat \<Rightarrow> Property list \<Rightarrow> CodeGenerator" where
  "set_properties g i ps =
     g\<lparr>g_model := (g_model g)
        \<lparr>structures := (structures (g_model g))[i := (structure_at g i)\<lparr>s_properties := ps\<rparr>]\<rparr>\<rparr>"

text \<open>
  \<open>pull_reference\<close>: \<open>self._structure_maps[tp.name]\<close>. Only a reference has a string
  \<open>name\<close>; the \<open>name\<close> of a base type is an enum member, which is no key of the
  dictionary, and the other types have no \<open>name\<close>.
\<close>

fun pull_reference :: "CodeGenerator \<Rightarrow> Type \<Rightarrow> error + nat" where
  "pull_reference g (ReferenceType n) =
     (case map_of (g_structure_maps g) n of None \<Rightarrow> Inl KeyError | Some j \<Rightarrow> Inr j)"
| "pull_reference g (BaseType b) = Inl KeyError"
| "pull_reference g tp = Inl AttributeError"

text \<open>
  The local variable \<open>properties\<close> of \<open>structure\<close>: after
  \<open>properties = tp.properties or list()\<close> it is the structure's own list object when
  that list is not empty, and a new list otherwise.
\<close>

datatype properties_ref = OwnList | NewList "Property list"

fun read_properties :: "CodeGenerator \<Rightarrow> nat \<Rightarrow> properties_ref \<Rightarrow> Property list" where
  "read_properties g i OwnList = s_properties (structure_at g i)"
| "read_properties g i (NewList ps) = ps"

text \<open>
  The loop \<open>for mixin in tp.mixins\<close>: \<open>properties.extend(ref.properties)\<close> appends, in
  place, what the list of the referenced structure holds at that moment. A
  \<open>KeyError\<close> stops the loop and keeps what was appended before.
\<close>

fun extend_mixins ::
  "CodeGenerator \<Rightarrow> nat \<Rightarrow> properties_ref \<Rightarrow> Type list
    \<Rightarrow> (error + properties_ref) \<times> CodeGenerator" where
  "extend_mixins g i r [] = (Inr r, g)"
| "extend_mixins g i r (mixin # mixins) =
     (case pull_reference g mixin of Inl err \<Rightarrow> (Inl err, g)
      | Inr j \<Rightarrow>
          (case r of
             OwnList \<Rightarrow>
               extend_mixins
                 (set_properties g i
                    (s_properties (structure_at g i) @ s_properties (structure_at g j)))
                 i OwnList mixins
           | NewList ps \<Rightarrow>
               extend_mixins g i (NewList (ps @ s_properties (structure_at g j))) mixins))"

definition structure_parents :: "Structure \<Rightarrow> error + string list" where
  "structure_parents tp =
     (case s_extends tp of None \<Rightarrow> Inr [''TypedDict'']
      | Some ps \<Rightarrow> if ps = [] then Inr [''TypedDict''] else type_items ps)"

text \<open>\<open>structure\<close>, on the structure object at position \<open>i\<close> of the model.\<close>

definition "structure" :: "CodeGenerator \<Rightarrow> nat \<Rightarrow> (error + Class) \<times> CodeGenerator" where
  "structure g i =
     (let tp = structure_at g i in
      case structure_parents tp of Inl err \<Rightarrow> (Inl err, g)
      | Inr parents \<Rightarrow>
          (case (case s_mixins tp of
                   None \<Rightarrow> (Inr (if s_properties tp = [] then NewList [] else OwnList), g)
                 | Some mixins \<Rightarrow>
                     extend_mixins g i (if s_properties tp = [] then NewList [] else OwnList)
                       mixins) of
             (Inl err, g1) \<Rightarrow> (Inl err, g1)
           | (Inr r, g1) \<Rightarrow>
               (case properties_variables (read_properties g1 i r) of
                  Inl err \<Rightarrow> (Inl err, g1)
                | Inr variables \<Rightarrow>
                    (Inr \<lparr>c_name = s_name tp, c_variables = Some variables,
                          c_methods = None, c_parents = Some parents,
                          c_decorators = None, c_docstring = s_documentation tp\<rparr>, g1))))"

subsection \<open>\<open>generate\<close>\<close>

definition types_append :: "Definition \<Rightarrow> CodeGenerator \<Rightarrow> CodeGenerator" where
  "types_append d g = g\<lparr>g_types := g_types g @ [d]\<rparr>"

fun generate_enumerations :: "CodeGenerator \<Rightarrow> Enumeration list \<Rightarrow> CodeGenerator" where
  "generate_enumerations g [] = g"
| "generate_enumerations g (e # es) =
     generate_enumerations (types_append (ClassDef (enumeration e)) g) es"

text \<open>The loop over \<open>self.model.structures\<close>, by position.\<close>

fun generate_structures :: "CodeGenerator \<Rightarrow> nat list \<Rightarrow> (error + unit) \<times> CodeGenerator" where
  "generate_structures g [] = (Inr (), g)"
| "generate_structures g (i # is) =
     (case structure g i of (Inl err, g1) \<Rightarrow> (Inl err, g1)
      | (Inr c, g1) \<Rightarrow> generate_structures (types_append (ClassDef c) g1) is)"

fun generate_typealiases :: "CodeGenerator \<Rightarrow> TypeAlias list \<Rightarrow> (error + unit) \<times> CodeGenerator" where
  "generate_typealiases g [] = (Inr (), g)"
| "generate_typealiases g (a # as) =
     (case typealias a of Inl err \<Rightarrow> (Inl err, g)
      | Inr v \<Rightarrow> generate_typealiases (types_append (VariableDef v) g) as)"

fun generate_requests :: "CodeGenerator \<Rightarrow> Request list \<Rightarrow> (error + unit) \<times> CodeGenerator" where
  "generate_requests g [] = (Inr (), g)"
| "generate_requests g (r # rs) =
     (case request g r of Inl err \<Rightarrow> (Inl err, g) | Inr g1 \<Rightarrow> generate_requests g1 rs)"

fun generate_notifications ::
  "CodeGenerator \<Rightarrow> Notification list \<Rightarrow> (error + unit) \<times> CodeGenerator" where
  "generate_notifications g [] = (Inr (), g)"
| "generate_notifications g (n # ns) =
     (case notification g n of Inl err \<Rightarrow> (Inl err, g)
      | Inr g1 \<Rightarrow> generate_notifications g1 ns)"

text \<open>
  \<open>generate\<close>. \<open>metadata\<close> does nothing. The result is the exception, if one was
  raised, and the state the generator is left in; \<open>_is_generated\<close> is set by the last
  statement only.
\<close>

definition generate :: "CodeGenerator \<Rightarrow> (error + unit) \<times> CodeGenerator" where
  "generate g =
     (let g1 = generate_enumerations g (enumerations (g_model g)) in
      case generate_structures g1 [0..<length (structures (g_model g1))] of
        (Inl err, g2) \<Rightarrow> (Inl err, g2)
      | (Inr u, g2) \<Rightarrow>
     (case generate_typealiases g2 (typeAliases (g_model g2)) of
        (Inl err, g3) \<Rightarrow> (Inl err, g3)
      | (Inr u, g3) \<Rightarrow>
     (case generate_requests g3 (requests (g_model g3)) of
        (Inl err, g4) \<Rightarrow> (Inl err, g4)
      | (Inr u, g4) \<Rightarrow>
     (case generate_notifications g4 (notifications (g_model g4)) of
        (Inl err, g5) \<Rightarrow> (Inl err, g5)
      | (Inr u, g5) \<Rightarrow> (Inr (), g5\<lparr>g_is_generated := True\<rparr>)))))"

section \<open>The dependency orderer\<close>

text \<open>\<open>{tp.name: tp for tp in names}\<close>; \<open>name_map.get\<close> is \<open>map_of\<close>.\<close>

definition name_map_of :: "Definition list \<Rightarrow> (string \<times> Definition) list" where
  "name_map_of names = fold (\<lambda>tp. AList.update (def_name tp) tp) names []"

text \<open>
  \<open>define_name\<close> works on \<open>self.defined_names\<close>, the list that is passed along here.
  The result of a call is the exception, if one left the call, and the list as the
  call left it. The loops of its body are written first; \<open>call\<close> stands for the nested
  \<open>self.define_name\<close>. The loops over annotations catch \<open>RecursionError\<close> and go on;
  the loop over the parents does not.
\<close>

type_synonym defining = "string list \<Rightarrow> (error + unit) \<times> string list"

fun define_parents ::
  "(Definition \<Rightarrow> defining) \<Rightarrow> (string \<times> Definition) list \<Rightarrow> string list \<Rightarrow> defining" where
  "define_parents call name_map [] defined = (Inr (), defined)"
| "define_parents call name_map (parent # parents) defined =
     (if parent \<in> set defined then define_parents call name_map parents defined
      else
        (case map_of name_map parent of
           None \<Rightarrow> define_parents call name_map parents defined
         | Some parent_obj \<Rightarrow>
             (case call parent_obj defined of
                (Inl err, defined1) \<Rightarrow> (Inl err, defined1)
              | (Inr u, defined1) \<Rightarrow> define_parents call name_map parents defined1)))"

fun define_types ::
  "(Definition \<Rightarrow> defining) \<Rightarrow> (string \<times> Definition) list \<Rightarrow> string list \<Rightarrow> defining" where
  "define_types call name_map [] defined = (Inr (), defined)"
| "define_types call name_map (typ # typs) defined =
     (if typ \<in> set defined then define_types call name_map typs defined
      else
        (case map_of name_map typ of
           None \<Rightarrow> define_types call name_map typs defined
         | Some typ_obj \<Rightarrow>
             (case call typ_obj defined of
                (Inl err, defined1) \<Rightarrow>
                  if err = RecursionError then define_types call name_map typs defined1
                  else (Inl err, defined1)
              | (Inr u, defined1) \<Rightarrow> define_types call name_map typs defined1)))"

fun define_variables ::
  "(Definition \<Rightarrow> defining) \<Rightarrow> (string \<times> Definition) list \<Rightarrow> Variable list \<Rightarrow> defining" where
  "define_variables call name_map [] defined = (Inr (), defined)"
| "define_variables call name_map (var # vars) defined =
     (case v_annotation var of None \<Rightarrow> define_variables call name_map vars defined
      | Some annotation \<Rightarrow>
          if annotation = [] then define_variables call name_map vars defined
          else
            (case define_types call name_map (findall annotation) defined of
               (Inl err, defined1) \<Rightarrow> (Inl err, defined1)
             | (Inr u, defined1) \<Rightarrow> define_variables call name_map vars defined1))"

text \<open>
  The body of \<open>define_name\<close>. A \<open>Class\<close> whose \<open>parents\<close> or \<open>variables\<close> is \<open>None\<close>, and
  a type alias whose \<open>value\<close> is \<open>None\<close>, raise \<open>TypeError\<close>.
\<close>

fun define_body ::
  "(Definition \<Rightarrow> defining) \<Rightarrow> (string \<times> Definition) list \<Rightarrow> Definition \<Rightarrow> defining" where
  "define_body call name_map (ClassDef c) defined =
     (case c_parents c of None \<Rightarrow> (Inl TypeError, defined)
      | Some parents \<Rightarrow>
     (case define_parents call name_map parents defined of
        (Inl err, defined1) \<Rightarrow> (Inl err, defined1)
      | (Inr u, defined1) \<Rightarrow>
     (case c_variables c of None \<Rightarrow> (Inl TypeError, defined1)
      | Some variables \<Rightarrow>
     (case define_variables call name_map variables defined1 of
        (Inl err, defined2) \<Rightarrow> (Inl err, defined2)
      | (Inr u, defined2) \<Rightarrow> (Inr (), defined2 @ [c_name c])))))"
| "define_body call name_map (VariableDef v) defined =
     (if v_annotation v = Some ''TypeAlias'' then
        (case v_value v of None \<Rightarrow> (Inl TypeError, defined)
         | Some val \<Rightarrow>
        (case define_types call name_map (findall val) defined of
           (Inl err, defined1) \<Rightarrow> (Inl err, defined1)
         | (Inr u, defined1) \<Rightarrow> (Inr (), defined1 @ [v_name v])))
      else (Inr (), defined @ [v_name v]))"

text \<open>
  \<open>define_name\<close>. The first argument is the number of nested calls of \<open>define_name\<close>
  that the interpreter's recursion limit still allows: a call with none left raises
  \<open>RecursionError\<close> in its first statement, before it appends anything.
\<close>

fun define_name :: "nat \<Rightarrow> (string \<times> Definition) list \<Rightarrow> Definition \<Rightarrow> defining" where
  "define_name 0 name_map name defined = (Inl RecursionError, defined)"
| "define_name (Suc depth) name_map name defined =
     define_body (define_name depth name_map) name_map name defined"

text \<open>The first loop of \<open>ordered_names\<close>: no exception is caught there.\<close>

fun define_all ::
  "nat \<Rightarrow> (string \<times> Definition) list \<Rightarrow> Definition list \<Rightarrow> defining" where
  "define_all depth name_map [] defined = (Inr (), defined)"
| "define_all depth name_map (name # names) defined =
     (case define_name depth name_map name defined of
        (Inl err, defined1) \<Rightarrow> (Inl err, defined1)
      | (Inr u, defined1) \<Rightarrow> define_all depth name_map names defined1)"

text \<open>
  The second loop: a name that was seen is skipped, the others are looked up with
  \<open>self.name_map[name]\<close>. \<open>seen\<close> is the set \<open>defined\<close> of the source.
\<close>

fun collect_ordered ::
  "(string \<times> Definition) list \<Rightarrow> string list \<Rightarrow> string list \<Rightarrow> error + Definition list" where
  "collect_ordered name_map [] seen = Inr []"
| "collect_ordered name_map (name # names) seen =
     (if name \<in> set seen then collect_ordered name_map names seen
      else
        (case map_of name_map name of None \<Rightarrow> Inl KeyError
         | Some obj \<Rightarrow>
             (case collect_ordered name_map names (name # seen) of Inl err \<Rightarrow> Inl err
              | Inr ordered \<Rightarrow> Inr (obj # ordered))))"

text \<open>\<open>NameOrderer(names).ordered_names()\<close>, with \<open>limit\<close> nested calls allowed.\<close>

definition ordered_names :: "nat \<Rightarrow> Definition list \<Rightarrow> error + Definition list" where
  "ordered_names limit names =
     (case define_all limit (name_map_of names) names [] of
        (Inl err, defined) \<Rightarrow> Inl err
      | (Inr u, defined) \<Rightarrow> collect_ordered (name_map_of names) defined [])"

section \<open>The import resolver\<close>

text \<open>
  The three lines that every scan of \<open>resolve\<close> ends with: a name that is imported
  already is skipped, a name of the defined names is appended. \<open>names\<close> lists the set
  \<open>names\<close> of the source.
\<close>

fun add_imports :: "string list \<Rightarrow> string list \<Rightarrow> string list \<Rightarrow> string list" where
  "add_imports names [] imports = imports"
| "add_imports names (typ # typs) imports =
     (if typ \<in> set imports then add_imports names typs imports
      else if typ \<in> set names then add_imports names typs (imports @ [typ])
      else add_imports names typs imports)"

text \<open>\<open>if annotation := x.annotation: for typ in identifier_pattern.findall(annotation)\<close>.\<close>

definition scan_annotation :: "string list \<Rightarrow> string option \<Rightarrow> string list \<Rightarrow> string list" where
  "scan_annotation names ann imports =
     (case ann of None \<Rightarrow> imports
      | Some annotation \<Rightarrow>
          if annotation = [] then imports else add_imports names (findall annotation) imports)"

fun resolve_variables :: "string list \<Rightarrow> Variable list \<Rightarrow> string list \<Rightarrow> string list" where
  "resolve_variables names [] imports = imports"
| "resolve_variables names (var # vars) imports =
     resolve_variables names vars (scan_annotation names (v_annotation var) imports)"

fun resolve_arguments :: "string list \<Rightarrow> Argument list \<Rightarrow> string list \<Rightarrow> string list" where
  "resolve_arguments names [] imports = imports"
| "resolve_arguments names (arg # args) imports =
     resolve_arguments names args (scan_annotation names (a_annotation arg) imports)"

text \<open>A function whose \<open>arguments\<close> is \<open>None\<close> raises \<open>TypeError\<close> in \<open>for arg in func.arguments\<close>.\<close>

fun resolve_methods :: "string list \<Rightarrow> Function list \<Rightarrow> string list \<Rightarrow> error + string list" where
  "resolve_methods names [] imports = Inr imports"
| "resolve_methods names (func # funcs) imports =
     (case f_arguments func of None \<Rightarrow> Inl TypeError
      | Some args \<Rightarrow>
          resolve_methods names funcs
            (scan_annotation names (f_annotation func) (resolve_arguments names args imports)))"

fun resolve_consumer :: "string list \<Rightarrow> Definition \<Rightarrow> string list \<Rightarrow> error + string list" where
  "resolve_consumer names (ClassDef c) imports =
     (let imports1 = (case c_parents c of None \<Rightarrow> imports
                      | Some parents \<Rightarrow> add_imports names parents imports);
          imports2 = (case c_variables c of None \<Rightarrow> imports1
                      | Some vars \<Rightarrow> resolve_variables names vars imports1)
      in case c_methods c of None \<Rightarrow> Inr imports2
         | Some funcs \<Rightarrow> resolve_methods names funcs imports2)"
| "resolve_consumer names (VariableDef v) imports =
     (let imports1 = scan_annotation names (v_annotation v) imports
      in if v_annotation v = Some ''TypeAlias'' then
           (case v_value v of None \<Rightarrow> Inl TypeError
            | Some val \<Rightarrow> Inr (add_imports names (findall val) imports1))
         else Inr imports1)"

fun resolve_consumers :: "string list \<Rightarrow> Definition list \<Rightarrow> string list \<Rightarrow> error + string list" where
  "resolve_consumers names [] imports = Inr imports"
| "resolve_consumers names (name # consumer_names) imports =
     (case resolve_consumer names name imports of Inl err \<Rightarrow> Inl err
      | Inr imports1 \<Rightarrow> resolve_consumers names consumer_names imports1)"

text \<open>\<open>ImportsManager(consumer_names, defined_names).resolve()\<close>.\<close>

definition resolve :: "Definition list \<Rightarrow> Definition list \<Rightarrow> error + string list" where
  "resolve consumer_names defined_names =
     resolve_consumers (map def_name defined_names) consumer_names []"

section \<open>The output properties\<close>

text \<open>
  Each property returns, when it does not raise, the list of objects whose \<open>get_code\<close>
  texts it joins; rendering them to text is not modelled. Reading a property changes
  the generator: \<open>types_code\<close> puts the base aliases in front of \<open>_types\<close>, and the other
  two append a \<open>handle\<close> method. \<open>types_code\<close> takes the number of nested calls that
  the recursion limit allows the orderer.
\<close>

definition not_generated :: error where
  "not_generated = Exception ''code not generated yet''"

definition alias_variable :: "string \<Rightarrow> string \<Rightarrow> Definition" where
  "alias_variable name val =
     VariableDef \<lparr>v_name = name, v_annotation = Some ''TypeAlias'', v_value = Some val,
                  v_docstring = None\<rparr>"

definition base_aliases :: "Definition list" where
  "base_aliases =
     [alias_variable ''uinteger'' ''int'', alias_variable ''URI'' ''str'',
      alias_variable ''DocumentUri'' ''str'', alias_variable ''RegExp'' ''str'']"

definition types_imports :: "FromImports list" where
  "types_imports =
     [\<lparr>i_module = ''__future__'', i_names = [''annotations'']\<rparr>,
      \<lparr>i_module = ''enum'', i_names = [''Enum'']\<rparr>,
      \<lparr>i_module = ''typing'',
       i_names = [''List'', ''Dict'', ''Union'', ''Tuple'', ''Literal'', ''TypeAlias'',
                  ''TypedDict'', ''NotRequired'']\<rparr>]"

definition types_code :: "nat \<Rightarrow> CodeGenerator \<Rightarrow> (error + Code list) \<times> CodeGenerator" where
  "types_code limit g =
     (if \<not> g_is_generated g then (Inl not_generated, g)
      else
        let g1 = g\<lparr>g_types := base_aliases @ g_types g\<rparr> in
        case ordered_names limit (g_types g1) of Inl err \<Rightarrow> (Inl err, g1)
        | Inr ordered_types \<Rightarrow>
            (Inr (map ImportCode types_imports @ map DefinitionCode ordered_types), g1))"

text \<open>The \<open>handle\<close> method over a dispatch table.\<close>

definition handle_function :: "(string \<times> string) list \<Rightarrow> Function" where
  "handle_function table =
     \<lparr>f_name = ''handle'',
      f_arguments =
        Some [argument ''self'' None, argument ''method'' (Some ''str''),
              argument ''params_or_result'' (Some ''LSPAny'')],
      f_annotation = Some ''None'',
      f_body =
        Some (''handle_map = {'' @ [CHR 0x0A, CHR 0x09]
              @ join ('','' @ [CHR 0x0A, CHR 0x09])
                  (map (\<lambda>(k, v). repr_str k @ '': self.'' @ v) table)
              @ [CHR 0x0A, CHR 0x09] @ ''}'' @ [CHR 0x0A]
              @ ''return handle_map[method](params_or_result)'' @ [CHR 0x0A]),
      f_decorators = None, f_docstring = None\<rparr>"

definition dispatcher_imports :: "string list \<Rightarrow> FromImports list" where
  "dispatcher_imports protocol_imports =
     [\<lparr>i_module = ''typing'', i_names = [''List'', ''Union'']\<rparr>,
      \<lparr>i_module = ''.lsprotocol'', i_names = protocol_imports\<rparr>]"

definition server_code :: "CodeGenerator \<Rightarrow> (error + Code list) \<times> CodeGenerator" where
  "server_code g =
     (if \<not> g_is_generated g then (Inl not_generated, g)
      else
        let g1 = server_append [handle_function (g_server_handle_map g)] g in
        case resolve [ClassDef (server_class g1)] (g_types g1) of Inl err \<Rightarrow> (Inl err, g1)
        | Inr protocol_imports \<Rightarrow>
            (Inr (map ImportCode (dispatcher_imports protocol_imports)
                  @ [DefinitionCode (ClassDef (server_class g1))]), g1))"

definition client_code :: "CodeGenerator \<Rightarrow> (error + Code list) \<times> CodeGenerator" where
  "client_code g =
     (if \<not> g_is_generated g then (Inl not_generated, g)
      else
        let g1 = client_append [handle_function (g_client_handle_map g)] g in
        case resolve [ClassDef (client_class g1)] (g_types g1) of Inl err \<Rightarrow> (Inl err, g1)
        | Inr protocol_imports \<Rightarrow>
            (Inr (map ImportCode (dispatcher_imports protocol_imports)
                  @ [DefinitionCode (ClassDef (client_class g1))]), g1))"

section \<open>Default values of typed dictionaries (\<open>utils.py\<close>)\<close>

text \<open>
  The annotations that \<open>_get_type_default\<close> tells apart, and the values it returns.
  \<open>TNone\<close> is \<open>None\<close> or \<open>type(None)\<close>; \<open>TList\<close>, \<open>TDict\<close>, \<open>TUnion\<close> and \<open>TLiteral\<close> are the
  annotations whose \<open>get_origin\<close> is \<open>list\<close>, \<open>dict\<close>, \<open>Union\<close> and \<open>Literal\<close>, with their
  \<open>get_args\<close>; \<open>TTypedDict\<close> is a \<open>TypedDict\<close> class, by name; \<open>TOther\<close> is any other
  annotation, with its \<open>get_args\<close>. \<open>MissingValue\<close> is the dataclass of that name.
\<close>

datatype pytype =
    TInt | TFloat | TStr | TBool | TNone
  | TList "pytype list"
  | TDict "pytype list"
  | TUnion "pytype list"
  | TLiteral "pyvalue list"
  | TTypedDict string
  | TOther "pytype list"
and pyvalue =
    VInt int | VFloatZero | VStr string | VBool bool | VNone
  | VList "pyvalue list"
  | VDict "(string \<times> pyvalue) list"
  | MissingValue pytype

text \<open>
  A \<open>TypedDict\<close> class: what \<open>get_type_hints\<close> returns for it, in order, and its
  \<open>__required_keys__\<close> in the order in which the frozen set is iterated.
\<close>

record typeddict_class =
  td_type_hints :: "(string \<times> pytype) list"
  td_required_keys :: "string list"

type_synonym classes = "(string \<times> typeddict_class) list"

text \<open>The dictionary \<open>atomic_types\<close>.\<close>

definition atomic_types :: "(pytype \<times> pyvalue) list" where
  "atomic_types =
     [(TInt, VInt 0), (TFloat, VFloatZero), (TStr, VStr []), (TBool, VBool False),
      (TNone, VNone)]"

datatype origin = OriginList | OriginDict | OriginUnion | OriginLiteral

fun get_origin :: "pytype \<Rightarrow> origin option" where
  "get_origin (TList args) = Some OriginList"
| "get_origin (TDict args) = Some OriginDict"
| "get_origin (TUnion args) = Some OriginUnion"
| "get_origin (TLiteral args) = Some OriginLiteral"
| "get_origin typ = None"

fun is_typeddict :: "pytype \<Rightarrow> bool" where
  "is_typeddict (TTypedDict name) = True"
| "is_typeddict typ = False"

text \<open>
  \<open>_get_valueset_default\<close>: \<open>args[0]\<close> raises \<open>IndexError\<close> when the annotation has no
  arguments. An argument of an annotation is a class or a literal value and never an
  instance of \<open>Enum\<close>, so the test \<open>isinstance(items, Enum)\<close> fails and the function
  raises \<open>ValueError\<close>.
\<close>

fun has_args :: "pytype \<Rightarrow> bool" where
  "has_args (TList args) = (args \<noteq> [])"
| "has_args (TDict args) = (args \<noteq> [])"
| "has_args (TUnion args) = (args \<noteq> [])"
| "has_args (TLiteral args) = (args \<noteq> [])"
| "has_args (TOther args) = (args \<noteq> [])"
| "has_args typ = False"

definition get_valueset_default :: "pytype \<Rightarrow> error + pyvalue" where
  "get_valueset_default typ = (if has_args typ then Inl ValueError else Inl IndexError)"

text \<open>
  The body of \<open>_get_type_default\<close>; \<open>call\<close> is the nested \<open>self._get_type_default\<close> and
  \<open>call_typeddict\<close> the nested \<open>self._get_typeddict_default\<close>. A value found in
  \<open>atomic_types\<close> is returned only if it \<open>is not None\<close>.
\<close>

definition get_type_default_body ::
  "(pytype \<Rightarrow> error + pyvalue) \<Rightarrow> (string \<Rightarrow> error + pyvalue) \<Rightarrow> bool \<Rightarrow> pytype
    \<Rightarrow> error + pyvalue" where
  "get_type_default_body call call_typeddict recursive typ =
     (let val = (case map_of atomic_types typ of None \<Rightarrow> VNone | Some v \<Rightarrow> v) in
      if val \<noteq> VNone then Inr val
      else if get_origin typ = Some OriginList then Inr (VList [])
      else if get_origin typ = Some OriginDict then Inr (VDict [])
      else
        (case typ of
           TUnion args \<Rightarrow> (case args of [] \<Rightarrow> Inl IndexError | a # rest \<Rightarrow> call a)
         | TLiteral args \<Rightarrow> (case args of [] \<Rightarrow> Inl IndexError | v # rest \<Rightarrow> Inr v)
         | TTypedDict name \<Rightarrow>
             if \<not> recursive then Inr (MissingValue typ) else call_typeddict name
         | _ \<Rightarrow> Inl ValueError))"

text \<open>The loop \<open>for key in keys\<close> of \<open>_get_typeddict_default\<close>, filling \<open>data\<close>.\<close>

fun typeddict_keys ::
  "(pytype \<Rightarrow> error + pyvalue) \<Rightarrow> (string \<times> pytype) list \<Rightarrow> string list
    \<Rightarrow> (string \<times> pyvalue) list \<Rightarrow> error + (string \<times> pyvalue) list" where
  "typeddict_keys call type_hints [] data = Inr data"
| "typeddict_keys call type_hints (key # keys) data =
     (case map_of type_hints key of None \<Rightarrow> Inl KeyError
      | Some tp \<Rightarrow>
          (case (if key = ''valueSet'' then get_valueset_default tp else call tp) of
             Inl err \<Rightarrow> Inl err
           | Inr v \<Rightarrow> typeddict_keys call type_hints keys (AList.update key v data)))"

text \<open>
  \<open>_get_type_default\<close> and \<open>_get_typeddict_default\<close>. The first argument is the number
  of nested calls that the recursion limit still allows; a \<open>TypedDict\<close> class is looked
  up by name in the classes of the program.
\<close>

fun get_type_default :: "nat \<Rightarrow> classes \<Rightarrow> bool \<Rightarrow> bool \<Rightarrow> pytype \<Rightarrow> error + pyvalue"
  and get_typeddict_default :: "nat \<Rightarrow> classes \<Rightarrow> bool \<Rightarrow> bool \<Rightarrow> string \<Rightarrow> error + pyvalue" where
  "get_type_default 0 cs only_required recursive typ = Inl RecursionError"
| "get_type_default (Suc depth) cs only_required recursive typ =
     get_type_default_body (get_type_default depth cs only_required recursive)
       (get_typeddict_default depth cs only_required recursive) recursive typ"
| "get_typeddict_default 0 cs only_required recursive name = Inl RecursionError"
| "get_typeddict_default (Suc depth) cs only_required recursive name =
     (case map_of cs name of None \<Rightarrow> Inl KeyError
      | Some cls \<Rightarrow>
          (case typeddict_keys (get_type_default depth cs only_required recursive)
                  (td_type_hints cls)
                  (if only_required then td_required_keys cls
                   else map fst (td_type_hints cls)) [] of
             Inl err \<Rightarrow> Inl err
           | Inr data \<Rightarrow> Inr (VDict data)))"

text \<open>\<open>get_default_value(typ, only_required=..., recursive=...)\<close>.\<close>

definition get_default_value :: "nat \<Rightarrow> classes \<Rightarrow> string \<Rightarrow> bool \<Rightarrow> bool \<Rightarrow> error + pyvalue" where
  "get_default_value limit cs typ only_required recursive =
     get_typeddict_default limit cs only_required recursive typ"

section \<open>Statements of the claims, and example inputs\<close>

subsection \<open>Example inputs\<close>

definition empty_model :: MetaModel where
  "empty_model =
     \<lparr>requests = [], notifications = [], structures = [], enumerations = [],
      typeAliases = []\<rparr>"

definition standalone_model :: MetaModel where
  "standalone_model =
     \<lparr>requests = [], notifications = [],
      structures = [\<lparr>s_name = ''Position'', s_extends = None, s_mixins = None,
                     s_properties = [Property ''line'' (BaseType UINTEGER) None None],
                     s_documentation = None\<rparr>],
      enumerations = [], typeAliases = []\<rparr>"

definition standalone_class :: Class where
  "standalone_class =
     \<lparr>c_name = ''Position'',
      c_variables = Some [\<lparr>v_name = ''line'', v_annotation = Some ''uinteger'',
                           v_value = None, v_docstring = None\<rparr>],
      c_methods = None, c_parents = Some [''TypedDict''], c_decorators = None,
      c_docstring = None\<rparr>"

definition progress_notification :: Notification where
  "progress_notification =
     \<lparr>nt_method = ''$/progress'', nt_typeName = Some ''ProgressNotification'',
      nt_params = OneParam (ReferenceType ''ProgressParams''), nt_messageDirection = BOTH,
      nt_documentation = None\<rparr>"

definition hover_request :: Request where
  "hover_request =
     \<lparr>rq_method = ''textDocument/hover'', rq_typeName = Some ''HoverRequest'',
      rq_params = OneParam (ReferenceType ''HoverParams''),
      rq_result = OrType [ReferenceType ''Hover'', BaseType NULL],
      rq_messageDirection = CLIENTTOSERVER, rq_documentation = None\<rparr>"

subsection \<open>Method identifiers\<close>

text \<open>
  Inserting an underscore at every boundary of a text: between each two neighbouring
  characters that \<open>boundary\<close> holds for.
\<close>

fun insert_separators :: "(char \<Rightarrow> char \<Rightarrow> bool) \<Rightarrow> string \<Rightarrow> string" where
  "insert_separators boundary (a # b # rest) =
     (if boundary a b then a # CHR ''_'' # insert_separators boundary (b # rest)
      else a # insert_separators boundary (b # rest))"
| "insert_separators boundary s = s"

text \<open>
  The transform in the words of the spec: a separator at each boundary from a lowercase
  letter to an uppercase letter, then everything in lowercase.
\<close>

definition snake_case_spec :: "string \<Rightarrow> string" where
  "snake_case_spec text = lower (insert_separators (\<lambda>a b. is_az a \<and> is_AZ b) text)"

text \<open>The methods that a step from \<open>g\<close> to \<open>g'\<close> added to the two roles.\<close>

definition new_methods :: "CodeGenerator \<Rightarrow> CodeGenerator \<Rightarrow> Function list" where
  "new_methods g g' =
     drop (length (g_client_methods g)) (g_client_methods g')
     @ drop (length (g_server_methods g)) (g_server_methods g')"

subsection \<open>Default values\<close>

text \<open>
  The annotation at which \<open>_get_type_default\<close> ends: the annotation itself, or the first
  member of a union, and so on; and the number of unions passed on the way.
\<close>

fun selected :: "pytype \<Rightarrow> pytype" where
  "selected (TUnion (a # rest)) = selected a"
| "selected typ = typ"

fun union_depth :: "pytype \<Rightarrow> nat" where
  "union_depth (TUnion (a # rest)) = Suc (union_depth a)"
| "union_depth typ = 0"

text \<open>
  The default of each shape, as claim C9 is amended: a value for a scalar class, a list,
  a dictionary and a literal, a \<open>MissingValue\<close> for a typed dictionary that is not to be
  expanded, and \<open>ValueError\<close> for any other annotation. (\<open>get_args\<close> of a union or a
  literal is never empty; the model raises \<open>IndexError\<close> there. \<open>None\<close> is left out of
  the amended claim; the table gives what the code does.)
\<close>

fun shape_default :: "pytype \<Rightarrow> error + pyvalue" where
  "shape_default TInt = Inr (VInt 0)"
| "shape_default TFloat = Inr VFloatZero"
| "shape_default TStr = Inr (VStr [])"
| "shape_default TBool = Inr (VBool False)"
| "shape_default (TList args) = Inr (VList [])"
| "shape_default (TDict args) = Inr (VDict [])"
| "shape_default (TLiteral (v # rest)) = Inr v"
| "shape_default (TTypedDict name) = Inr (MissingValue (TTypedDict name))"
| "shape_default (TOther args) = Inl ValueError"
| "shape_default TNone = Inl ValueError"
| "shape_default (TLiteral []) = Inl IndexError"
| "shape_default (TUnion args) = Inl IndexError"

text \<open>The shapes that the amended claim counts as handled.\<close>

fun handled :: "pytype \<Rightarrow> bool" where
  "handled TInt = True"
| "handled TFloat = True"
| "handled TStr = True"
| "handled TBool = True"
| "handled (TList args) = True"
| "handled (TDict args) = True"
| "handled (TLiteral args) = (args \<noteq> [])"
| "handled (TTypedDict name) = True"
| "handled typ = False"

section \<open>Structures without parents (claim C4)\<close>

lemma structure_parents_TypedDict:
  "s_extends tp = None \<or> s_extends tp = Some [] \<Longrightarrow> structure_parents tp = Inr [''TypedDict'']"
  by (auto simp: structure_parents_def)

lemma structure_result_parents:
  assumes "fst (structure g i) = Inr c"
  shows "structure_parents (structure_at g i) = Inr (the (c_parents c)) \<and> c_parents c \<noteq> None"
  using assms
  by (auto simp: structure_def Let_def split: sum.splits prod.splits option.splits)

lemma standalone_structure:
  "structure (init standalone_model) 0 = (Inr standalone_class, init standalone_model)"
  by (simp add: structure_def standalone_model_def init_def structure_at_def Let_def
      structure_parents_def properties_variables_def basetype_def builtin_type_map_def
      standalone_class_def)

text \<open>
  Claim C4 as stated fails: a structure with no \<open>extends\<close> does not compile to a record
  with an empty parent list. \<open>Position\<close>, which extends nothing, gets the one parent
  \<open>TypedDict\<close>.
\<close>

theorem structure_no_extends_counterexample:
  "map_sum id c_parents (fst (structure (init standalone_model) 0)) = Inr (Some [''TypedDict''])
   \<and> map_sum id c_parents (fst (structure (init standalone_model) 0)) \<noteq> Inr (Some [])"
  by (simp add: standalone_structure standalone_class_def)

text \<open>
  Claim C4, amended: for every structure whose \<open>extends\<close> list is empty or absent, the
  compiled record has exactly one parent, the base \<open>TypedDict\<close>.
\<close>

theorem structure_no_extends_parents:
  assumes "s_extends (structure_at g i) = None \<or> s_extends (structure_at g i) = Some []"
    and "fst (structure g i) = Inr c"
  shows "c_parents c = Some [''TypedDict'']"
  using structure_result_parents[OF assms(2)] structure_parents_TypedDict[OF assms(1)]
  by auto

theorem structure_no_extends_parents_witness:
  "s_extends (structure_at (init standalone_model) 0) = None
   \<and> fst (structure (init standalone_model) 0) = Inr standalone_class
   \<and> c_parents standalone_class = Some [''TypedDict'']"
proof -
  have h1: "s_extends (structure_at (init standalone_model) 0) = None"
    by (simp add: structure_at_def init_def standalone_model_def)
  have h2: "fst (structure (init standalone_model) 0) = Inr standalone_class"
    by (simp add: standalone_structure)
  from structure_no_extends_parents[OF _ h2] h1 h2 show ?thesis by simp
qed

section \<open>Notifications in both directions (claim C6)\<close>

lemma update_filter_key:
  "distinct (map fst al) \<Longrightarrow>
   filter (\<lambda>kv. fst kv = k) (AList.update k v al) = [(k, v)]"
proof (induction al)
  case Nil
  then show ?case by simp
next
  case (Cons p ps)
  show ?case
  proof (cases "fst p = k")
    case True
    from Cons.prems True have "k \<notin> fst ` set ps" by auto
    then have "\<forall>x\<in>set ps. fst x \<noteq> k" by blast
    then have "filter (\<lambda>kv. fst kv = k) ps = []"
      by (simp add: filter_empty_conv)
    with True show ?thesis by (cases p) simp
  next
    case False
    with Cons show ?thesis by (cases p) simp
  qed
qed

text \<open>
  Claim C6: a notification with direction \<open>BOTH\<close>, whose type name is declared and whose
  parameters compile, adds to the client one sender and one handler stub, and to the
  server the same handler stub and sender; both are annotated to return \<open>None\<close>, the
  sender has a body and the stub has none. Each dispatch table is assigned the wire
  method with the handler's name, and then holds exactly one entry under that key
  (the tables are dictionaries, so their keys are distinct).
\<close>

theorem notification_both:
  assumes "nt_messageDirection tp = BOTH"
    and "nt_typeName tp = Some typeName"
    and "type_params (nt_params tp) = Inr params"
    and "distinct (map fst (g_client_handle_map g))"
    and "distinct (map fst (g_server_handle_map g))"
  shows "\<exists>g' sender handler.
     notification g tp = Inr g'
     \<and> sender = sender_function ''notify'' (to_snake_case typeName) params (nt_method tp)
                  (nt_documentation tp)
     \<and> handler = handler_function (''handle_'' @ to_snake_case typeName) ''params'' params ''None''
     \<and> g_client_methods g' = g_client_methods g @ [sender, handler]
     \<and> g_server_methods g' = g_server_methods g @ [handler, sender]
     \<and> f_annotation sender = Some ''None'' \<and> f_annotation handler = Some ''None''
     \<and> f_body sender \<noteq> None \<and> f_body handler = None
     \<and> g_client_handle_map g' = AList.update (nt_method tp) (f_name handler) (g_client_handle_map g)
     \<and> g_server_handle_map g' = AList.update (nt_method tp) (f_name handler) (g_server_handle_map g)
     \<and> filter (\<lambda>kv. fst kv = nt_method tp) (g_client_handle_map g') = [(nt_method tp, f_name handler)]
     \<and> filter (\<lambda>kv. fst kv = nt_method tp) (g_server_handle_map g') = [(nt_method tp, f_name handler)]"
  using assms
  by (simp add: notification_def Let_def client_append_def server_append_def client_handle_def
      server_handle_def sender_function_def handler_function_def update_filter_key
      AList.update_triv)

lemmas char_simps =
  char_code_def is_AZ_def is_az_def is_digit_def is_ident_start_def is_word_def

lemmas lower_simps = lower_def lower_char_def upper_chars_def lower_chars_def

lemma snake_progress: "to_snake_case ''ProgressNotification'' = ''progress_notification''"
  by (simp add: to_snake_case_def lower_simps char_simps)

theorem notification_both_witness:
  "\<exists>g'. notification (init empty_model) progress_notification = Inr g'
     \<and> map f_name (g_client_methods g') =
         [''progress_notification'', ''handle_progress_notification'']
     \<and> map f_name (g_server_methods g') =
         [''handle_progress_notification'', ''progress_notification'']
     \<and> g_client_handle_map g' = [(''$/progress'', ''handle_progress_notification'')]
     \<and> g_server_handle_map g' = [(''$/progress'', ''handle_progress_notification'')]"
  using notification_both[of progress_notification "''ProgressNotification''"
      "''ProgressParams''" "init empty_model"]
  by (auto simp add: progress_notification_def init_def empty_model_def snake_progress
      sender_function_def handler_function_def)

section \<open>Method identifiers (claim C7)\<close>


lemma insert_separators_upper:
  "is_AZ b \<Longrightarrow>
   insert_separators (\<lambda>a b. \<not> is_AZ a \<and> is_AZ b) (b # rest) =
     b # insert_separators (\<lambda>a b. \<not> is_AZ a \<and> is_AZ b) rest"
  by (cases rest) simp_all

lemma sub_boundary_separators:
  "sub_boundary s = insert_separators (\<lambda>a b. \<not> is_AZ a \<and> is_AZ b) s"
proof (induction s rule: sub_boundary.induct)
  case (1 a b rest)
  then show ?case by (simp add: insert_separators_upper)
qed simp_all

lemma insert_separators_cong:
  "(\<And>a b. a \<in> set s \<Longrightarrow> f a b = g a b) \<Longrightarrow>
   insert_separators f s = insert_separators g s"
proof (induction s rule: insert_separators.induct[of _ f])
  case (1 a b rest)
  then show ?case by simp
qed simp_all

lemma to_snake_case_letters:
  assumes "\<forall>c\<in>set text. is_az c \<or> is_AZ c"
  shows "to_snake_case text = snake_case_spec text"
proof -
  have "\<And>a. a \<in> set text \<Longrightarrow> is_az a = (\<not> is_AZ a)"
    using assms by (auto simp: is_az_def is_AZ_def)
  then have "insert_separators (\<lambda>a b. \<not> is_AZ a \<and> is_AZ b) text =
             insert_separators (\<lambda>a b. is_az a \<and> is_AZ b) text"
    by (intro insert_separators_cong) simp
  then show ?thesis
    by (simp add: to_snake_case_def snake_case_spec_def sub_boundary_separators)
qed

text \<open>
  Claim C7 as stated fails: the code puts a separator before an uppercase letter that
  follows any character outside \<open>A\<close> to \<open>Z\<close>, a digit for one, and not only after a
  lowercase letter.
\<close>

theorem to_snake_case_counterexample:
  "to_snake_case ''Utf8Position'' = ''utf8_position''
   \<and> snake_case_spec ''Utf8Position'' = ''utf8position''"
  by (simp add: to_snake_case_def snake_case_spec_def lower_simps char_simps)

text \<open>
  Claim C7, amended: the sender identifier is the declared type name with a separator
  at each boundary from a character that is not an uppercase letter \<open>A\<close> to \<open>Z\<close> to one
  that is, all in lowercase; every method that a request or a notification adds is
  named by it, a sender (which has a body) exactly so and a handler stub (which has
  none) with \<open>handle_\<close> in front. \<open>new_methods\<close> are the methods added to the two roles.
\<close>

theorem message_identifiers:
  "to_snake_case typeName =
     lower (insert_separators (\<lambda>a b. \<not> is_AZ a \<and> is_AZ b) typeName)
   \<and> (rq_typeName rq = Some typeName \<and> request g rq = Inr g' \<longrightarrow>
        (\<forall>f \<in> set (new_methods g g').
           f_name f = (if f_body f = None then ''handle_'' @ to_snake_case typeName
                       else to_snake_case typeName)))
   \<and> (nt_typeName nt = Some typeName \<and> notification g nt = Inr g'' \<longrightarrow>
        (\<forall>f \<in> set (new_methods g g'').
           f_name f = (if f_body f = None then ''handle_'' @ to_snake_case typeName
                       else to_snake_case typeName)))"
proof (intro conjI impI)
  show "to_snake_case typeName =
     lower (insert_separators (\<lambda>a b. \<not> is_AZ a \<and> is_AZ b) typeName)"
    by (simp add: to_snake_case_def sub_boundary_separators)
next
  assume "rq_typeName rq = Some typeName \<and> request g rq = Inr g'"
  then show "\<forall>f \<in> set (new_methods g g').
           f_name f = (if f_body f = None then ''handle_'' @ to_snake_case typeName
                       else to_snake_case typeName)"
    by (cases "rq_messageDirection rq")
       (auto simp: request_def Let_def new_methods_def client_append_def server_append_def
          client_handle_def server_handle_def sender_function_def handler_function_def
          split: sum.splits)
next
  assume "nt_typeName nt = Some typeName \<and> notification g nt = Inr g''"
  then show "\<forall>f \<in> set (new_methods g g'').
           f_name f = (if f_body f = None then ''handle_'' @ to_snake_case typeName
                       else to_snake_case typeName)"
    by (cases "nt_messageDirection nt")
       (auto simp: notification_def Let_def new_methods_def client_append_def server_append_def
          client_handle_def server_handle_def sender_function_def handler_function_def
          split: sum.splits)
qed

lemma snake_hover: "to_snake_case ''HoverRequest'' = ''hover_request''"
  by (simp add: to_snake_case_def lower_simps char_simps)

theorem message_identifiers_witness:
  "to_snake_case ''HoverRequest'' = ''hover_request''
   \<and> (\<exists>g'. request (init empty_model) hover_request = Inr g'
        \<and> new_methods (init empty_model) g' \<noteq> []
        \<and> list_all (\<lambda>f. f_name f = (if f_body f = None then ''handle_hover_request''
                                      else ''hover_request''))
             (new_methods (init empty_model) g'))
   \<and> (\<exists>g'. notification (init empty_model) progress_notification = Inr g'
        \<and> new_methods (init empty_model) g' \<noteq> []
        \<and> list_all (\<lambda>f. f_name f = (if f_body f = None then ''handle_progress_notification''
                                      else ''progress_notification''))
             (new_methods (init empty_model) g'))"
proof -
  define g1 where "g1 = projr (request (init empty_model) hover_request)"
  define g2 where "g2 = projr (notification (init empty_model) progress_notification)"
  have g1: "request (init empty_model) hover_request = Inr g1"
    unfolding g1_def
    by (simp add: request_def hover_request_def Let_def basetype_def builtin_type_map_def)
  have g2: "notification (init empty_model) progress_notification = Inr g2"
    unfolding g2_def
    by (simp add: notification_def progress_notification_def Let_def)
  have n1: "new_methods (init empty_model) g1 \<noteq> []"
    unfolding g1_def
    by (simp add: request_def hover_request_def Let_def basetype_def builtin_type_map_def
        new_methods_def init_def empty_model_def client_append_def server_append_def
        client_handle_def server_handle_def)
  have n2: "new_methods (init empty_model) g2 \<noteq> []"
    unfolding g2_def
    by (simp add: notification_def progress_notification_def Let_def
        new_methods_def init_def empty_model_def client_append_def server_append_def
        client_handle_def server_handle_def)
  have t1: "rq_typeName hover_request = Some ''HoverRequest''"
    by (simp add: hover_request_def)
  have t2: "nt_typeName progress_notification = Some ''ProgressNotification''"
    by (simp add: progress_notification_def)
  from message_identifiers[of "''HoverRequest''" hover_request "init empty_model" g1,
      THEN conjunct2, THEN conjunct1] t1 g1
  have a: "\<forall>f \<in> set (new_methods (init empty_model) g1).
           f_name f = (if f_body f = None then ''handle_hover_request'' else ''hover_request'')"
    by (simp add: snake_hover)
  from message_identifiers[of "''ProgressNotification''" _ "init empty_model" _
      progress_notification g2, THEN conjunct2, THEN conjunct2] t2 g2
  have b: "\<forall>f \<in> set (new_methods (init empty_model) g2).
           f_name f = (if f_body f = None then ''handle_progress_notification''
                       else ''progress_notification'')"
    by (simp add: snake_progress)
  show ?thesis
  proof (intro conjI)
    show "to_snake_case ''HoverRequest'' = ''hover_request''"
      by (rule snake_hover)
    show "\<exists>g'. request (init empty_model) hover_request = Inr g'
        \<and> new_methods (init empty_model) g' \<noteq> []
        \<and> list_all (\<lambda>f. f_name f = (if f_body f = None then ''handle_hover_request''
                                      else ''hover_request''))
             (new_methods (init empty_model) g')"
      using g1 n1 a by (intro exI[of _ g1]) (simp add: list_all_iff)
    show "\<exists>g'. notification (init empty_model) progress_notification = Inr g'
        \<and> new_methods (init empty_model) g' \<noteq> []
        \<and> list_all (\<lambda>f. f_name f = (if f_body f = None then ''handle_progress_notification''
                                      else ''progress_notification''))
             (new_methods (init empty_model) g')"
      using g2 n2 b by (intro exI[of _ g2]) (simp add: list_all_iff)
  qed
qed
section \<open>Default values (claim C9)\<close>

lemma get_type_default_Suc:
  "get_type_default (Suc depth) cs only_required recursive typ =
     (case typ of
        TUnion args \<Rightarrow>
          (case args of [] \<Rightarrow> Inl IndexError
           | a # rest \<Rightarrow> get_type_default depth cs only_required recursive a)
      | TTypedDict name \<Rightarrow>
          if \<not> recursive then Inr (MissingValue typ)
          else get_typeddict_default depth cs only_required recursive name
      | _ \<Rightarrow> shape_default typ)"
  by (cases "typ"; simp add: get_type_default_body_def atomic_types_def split: list.splits)

lemma get_type_default_selected:
  assumes "union_depth typ < depth"
    and "recursive \<longrightarrow> \<not> is_typeddict (selected typ)"
  shows "get_type_default depth cs only_required recursive typ = shape_default (selected typ)"
  using assms
proof (induction depth arbitrary: "typ")
  case 0
  then show ?case by simp
next
  case (Suc depth)
  show ?case
  proof (cases "typ")
    case (TUnion args)
    show ?thesis
    proof (cases args)
      case Nil
      with TUnion show ?thesis
        by (simp del: get_type_default.simps add: get_type_default_Suc)
    next
      case (Cons a rest)
      with TUnion Suc.prems have "union_depth a < depth"
        and "recursive \<longrightarrow> \<not> is_typeddict (selected a)"
        by simp_all
      then have "get_type_default depth cs only_required recursive a = shape_default (selected a)"
        by (rule Suc.IH)
      with TUnion Cons show ?thesis
        by (simp del: get_type_default.simps add: get_type_default_Suc)
    qed
  next
    case (TTypedDict name)
    with Suc.prems show ?thesis
      by (simp del: get_type_default.simps add: get_type_default_Suc)
  qed (simp_all del: get_type_default.simps add: get_type_default_Suc)
qed

lemma shape_default_handled:
  "typ \<noteq> TNone \<Longrightarrow> (\<exists>v. shape_default typ = Inr v) = handled typ"
  by (cases "typ" rule: shape_default.cases) simp_all

text \<open>
  Claim C9 as stated fails: for an inline record (a field annotated with a
  \<open>TypedDict\<close> class) the helper does not raise when recursive expansion is not
  requested; it returns a \<open>MissingValue\<close> that holds the class.
\<close>

theorem get_type_default_counterexample:
  "get_type_default 1000 [] False False (TTypedDict ''ClientCapabilities'') =
     Inr (MissingValue (TTypedDict ''ClientCapabilities''))"
proof -
  have "get_type_default (Suc 999) [] False False (TTypedDict ''ClientCapabilities'') =
     Inr (MissingValue (TTypedDict ''ClientCapabilities''))"
    by (simp only: get_type_default_Suc) simp
  then show ?thesis by simp
qed

text \<open>
  Claim C9, amended. Let the helper be asked for an annotation that ends, through first
  members of unions that the recursion limit lets it follow, at a shape other than
  \<open>None\<close>. Without recursive expansion it returns the default of that shape: it raises
  \<open>ValueError\<close> for a shape it cannot handle, also as the first member of a union, and
  returns a value exactly for the handled shapes, which are the scalar classes, a list,
  a dictionary, a literal and an inline record; for the inline record the value is a
  \<open>MissingValue\<close>, not an error. With recursive expansion the same holds for every
  shape but the inline record.
\<close>

theorem get_type_default_shapes:
  assumes "union_depth typ < depth"
    and "selected typ \<noteq> TNone"
  shows "get_type_default depth cs only_required False typ = shape_default (selected typ)
    \<and> (\<not> is_typeddict (selected typ) \<longrightarrow>
          get_type_default depth cs only_required True typ = shape_default (selected typ))
    \<and> ((\<exists>v. get_type_default depth cs only_required False typ = Inr v) = handled (selected typ))
    \<and> ((\<exists>args. selected typ = TOther args) \<longrightarrow>
          get_type_default depth cs only_required False typ = Inl ValueError)"
proof -
  have a: "get_type_default depth cs only_required False typ = shape_default (selected typ)"
    using assms(1) by (intro get_type_default_selected) simp_all
  have b: "\<not> is_typeddict (selected typ) \<longrightarrow>
          get_type_default depth cs only_required True typ = shape_default (selected typ)"
    using assms(1) by (auto intro: get_type_default_selected)
  have c: "(\<exists>v. shape_default (selected typ) = Inr v) = handled (selected typ)"
    using assms(2) by (rule shape_default_handled)
  have d: "(\<exists>args. selected typ = TOther args) \<longrightarrow>
          shape_default (selected typ) = Inl ValueError"
    by auto
  from a b c d show ?thesis by simp
qed


theorem get_type_default_shapes_witness:
  "get_type_default 1000 [] False False (TUnion [TStr, TNone]) = Inr (VStr [])
   \<and> get_type_default 1000 [] False True (TUnion [TList [TInt], TNone]) = Inr (VList [])
   \<and> get_type_default 1000 [] False False (TUnion [TOther [], TInt]) = Inl ValueError
   \<and> get_type_default 1000 [] False False (TTypedDict ''Range'') =
       Inr (MissingValue (TTypedDict ''Range''))"
  using get_type_default_shapes[of "TUnion [TStr, TNone]" 1000 "[]" False]
    get_type_default_shapes[of "TUnion [TList [TInt], TNone]" 1000 "[]" False]
    get_type_default_shapes[of "TUnion [TOther [], TInt]" 1000 "[]" False]
    get_type_default_shapes[of "TTypedDict ''Range''" 1000 "[]" False]
  by simp

text \<open>
  What the code does for \<open>None\<close>, which the amended claim leaves out: the entries of
  \<open>atomic_types\<close> for \<open>None\<close> hold the value \<open>None\<close>, which the test \<open>val is not None\<close>
  takes for a missing entry, so the helper raises.
\<close>

lemma get_type_default_None:
  "get_type_default (Suc depth) cs only_required recursive TNone = Inl ValueError"
  by (simp add: get_type_default_body_def atomic_types_def)


end
